theory Spec2Isabelle
  imports Complex_Main "HOL-Library.AList"
begin

section \<open>Lab result interpreter: the data model\<close>

text \<open>
  The embedding follows the core module of \<^verbatim>\<open>src/main.py\<close> (the classes
  \<^verbatim>\<open>ResultStatus\<close>, \<^verbatim>\<open>ReferenceRange\<close>, \<^verbatim>\<open>TestResult\<close>, \<^verbatim>\<open>LabTest\<close> and its three
  subclasses, and \<^verbatim>\<open>LabInterpreter\<close>). The interactive script at the head of the file
  (it reads from the terminal and prints) is not part of the core and is not modelled.
\<close>

subsection \<open>Numbers\<close>

text \<open>
  The tables of the source hold both Python ints (\<^verbatim>\<open>41\<close>) and Python floats
  (\<^verbatim>\<open>13.5\<close>), and the difference shows when a bound is printed (\<^verbatim>\<open>41\<close> against
  \<^verbatim>\<open>41.0\<close>). A number is therefore tagged. A finite float is modelled by the real number
  that its shortest round-trip decimal denotes (the digits \<^verbatim>\<open>repr\<close> prints); that
  encoding is injective and keeps the order of the floats. The float \<^verbatim>\<open>-0.0\<close> equals
  \<^verbatim>\<open>0.0\<close> in every comparison and prints differently, so it has a constructor of its
  own. NaN and the infinities are outside the model. Python compares ints and floats by
  their numeric value.
\<close>

datatype pynum = PyInt int | PyFloat real | PyNegZero

fun num_val :: "pynum \<Rightarrow> real" where
  "num_val (PyInt i) = of_int i"
| "num_val (PyFloat x) = x"
| "num_val PyNegZero = 0"

definition py_lt :: "pynum \<Rightarrow> pynum \<Rightarrow> bool" where
  "py_lt a b = (num_val a < num_val b)"

definition py_gt :: "pynum \<Rightarrow> pynum \<Rightarrow> bool" where
  "py_gt a b = (num_val a > num_val b)"

text \<open>
  What an f-string prints for a number is its \<^verbatim>\<open>str\<close>. For an int that is the decimal
  digits (\<open>int_digits\<close>, for an int that is not negative), with a minus sign when it is
  negative (the cap that some interpreters put on the
  number of digits they will print is a setting of the interpreter and is left out).
\<close>

definition digit_char :: "nat \<Rightarrow> char" where
  "digit_char d = ''0123456789'' ! (d mod 10)"

function int_digits :: "int \<Rightarrow> string" where
  "int_digits i =
     (if i < 10 then [digit_char (nat i)]
      else int_digits (i div 10) @ [digit_char (nat (i mod 10))])"
  by pat_completeness auto
termination
  by (relation "measure nat") auto

definition int_str :: "int \<Rightarrow> string" where
  "int_str i = (if i < 0 then ''-'' @ int_digits (- i) else int_digits i)"

text \<open>
  For a float it is \<^verbatim>\<open>repr\<close>: the digits \<open>d\<^sub>1 \<dots> d\<^sub>n\<close> of the shortest round-trip
  decimal (at most 17 of them, no trailing zero) and the position \<open>p\<close> of the decimal
  point, the value being \<open>0.d\<^sub>1 \<dots> d\<^sub>n \<times> 10\<^sup>p\<close>. For \<open>-4 < p \<le> 16\<close> the digits are
  printed in place, filled with zeros and with at least one digit after the point
  (\<^verbatim>\<open>0.0001\<close>, \<^verbatim>\<open>13.5\<close>, \<^verbatim>\<open>4.0\<close>); otherwise as \<open>d\<^sub>1.d\<^sub>2 \<dots> d\<^sub>n\<close>, the letter
  \<^verbatim>\<open>e\<close>, the sign of the exponent \<open>p - 1\<close> and at least two digits of it
  (\<^verbatim>\<open>1e-05\<close>, \<^verbatim>\<open>1.5e+16\<close>).

  \<open>frac_digits n x\<close> are the digits after the point of \<open>x\<close>, at most \<open>n\<close> of them;
  \<open>lead_zeros x\<close> counts the zeros between the point and the first digit of \<open>x < 1\<close>.
\<close>

fun frac_digits :: "nat \<Rightarrow> real \<Rightarrow> string" where
  "frac_digits 0 x = []"
| "frac_digits (Suc n) x =
     (if x = 0 then []
      else (let d = \<lfloor>x * 10\<rfloor> in digit_char (nat d) # frac_digits n (x * 10 - of_int d)))"

function lead_zeros :: "real \<Rightarrow> nat" where
  "lead_zeros x = (if 0 < x \<and> x < 1 / 10 then Suc (lead_zeros (x * 10)) else 0)"
  by pat_completeness auto
termination
proof (relation "measure (\<lambda>x. nat \<lfloor>1 / x\<rfloor>)")
  show "wf (measure (\<lambda>x::real. nat \<lfloor>1 / x\<rfloor>))" by simp
next
  fix x :: real
  assume a: "0 < x \<and> x < 1 / 10"
  define y where "y = 1 / x"
  from a have y: "10 < y"
    unfolding y_def by (simp add: field_simps)
  have "\<lfloor>y / 10\<rfloor> \<le> y / 10" by (rule of_int_floor_le)
  moreover from y have "y / 10 < y - 1" by simp
  moreover have "y - 1 < of_int \<lfloor>y\<rfloor>" by linarith
  ultimately have "(of_int \<lfloor>y / 10\<rfloor> :: real) < of_int \<lfloor>y\<rfloor>" by linarith
  then have "\<lfloor>y / 10\<rfloor> < \<lfloor>y\<rfloor>" by (simp only: of_int_less_iff)
  moreover from y have "0 < \<lfloor>y\<rfloor>" by (simp add: less_floor_iff)
  ultimately have "nat \<lfloor>y / 10\<rfloor> < nat \<lfloor>y\<rfloor>" by (simp add: nat_less_iff)
  moreover have "1 / (x * 10) = y / 10"
    unfolding y_def by simp
  ultimately show "(x * 10, x) \<in> measure (\<lambda>x. nat \<lfloor>1 / x\<rfloor>)"
    unfolding y_def by (simp only: in_measure)
qed

definition dec_point :: "real \<Rightarrow> int" where
  "dec_point a =
     (if 1 \<le> a then int (length (int_digits \<lfloor>a\<rfloor>)) else - int (lead_zeros a))"

definition sig_digits :: "real \<Rightarrow> string" where
  "sig_digits a =
     frac_digits 17 (if 0 \<le> dec_point a then a / 10 ^ nat (dec_point a)
                     else a * 10 ^ nat (- dec_point a))"

definition exp_str :: "int \<Rightarrow> string" where
  "exp_str e =
     (if e < 0 then ''-'' else ''+'') @ (if \<bar>e\<bar> < 10 then ''0'' else []) @ int_digits \<bar>e\<bar>"

definition float_str :: "real \<Rightarrow> string" where
  "float_str x =
     (if x = 0 then ''0.0''
      else
        (let a = \<bar>x\<bar>; p = dec_point a; ds = sig_digits a; n = int (length ds)
         in (if x < 0 then ''-'' else []) @
            (if p \<le> - 4 \<or> 16 < p then
               take 1 ds @ (if 1 < n then ''.'' @ drop 1 ds else []) @ ''e'' @ exp_str (p - 1)
             else if p \<le> 0 then ''0.'' @ replicate (nat (- p)) (CHR ''0'') @ ds
             else if n \<le> p then ds @ replicate (nat (p - n)) (CHR ''0'') @ ''.0''
             else take (nat p) ds @ ''.'' @ drop (nat p) ds)))"

fun py_str :: "pynum \<Rightarrow> string" where
  "py_str (PyInt i) = int_str i"
| "py_str (PyFloat x) = float_str x"
| "py_str PyNegZero = ''-0.0''"

subsection \<open>ResultStatus, ReferenceRange, TestResult\<close>

datatype ResultStatus = NORMAL | LOW | HIGH | CRITICAL_LOW | CRITICAL_HIGH

text \<open>The \<^verbatim>\<open>.value\<close> of an enum member: the string it was declared with.\<close>

fun status_value :: "ResultStatus \<Rightarrow> string" where
  "status_value NORMAL = ''NORMAL''"
| "status_value LOW = ''LOW''"
| "status_value HIGH = ''HIGH''"
| "status_value CRITICAL_LOW = ''CRITICAL_LOW''"
| "status_value CRITICAL_HIGH = ''CRITICAL_HIGH''"

text \<open>
  The dataclass \<^verbatim>\<open>ReferenceRange\<close>; an \<^verbatim>\<open>Optional[float]\<close> that is \<^verbatim>\<open>None\<close> is
  \<open>None\<close>. The constructor checks nothing, so every value of the record is a range the
  code can hold.
\<close>

record ReferenceRange =
  min_value :: pynum
  max_value :: pynum
  critical_low :: "pynum option"
  critical_high :: "pynum option"
  unit :: string

text \<open>
  \<^verbatim>\<open>ReferenceRange.get_status\<close>: four tests in the order of the source, each returning
  at once when it holds.
\<close>

definition get_status :: "ReferenceRange \<Rightarrow> pynum \<Rightarrow> ResultStatus" where
  "get_status self v =
     (if (case critical_low self of None \<Rightarrow> False | Some c \<Rightarrow> py_lt v c) then CRITICAL_LOW
      else if (case critical_high self of None \<Rightarrow> False | Some h \<Rightarrow> py_gt v h) then CRITICAL_HIGH
      else if py_lt v (min_value self) then LOW
      else if py_gt v (max_value self) then HIGH
      else NORMAL)"

text \<open>
  The dataclass \<^verbatim>\<open>TestResult\<close>. Its fields \<^verbatim>\<open>value\<close> and \<^verbatim>\<open>interpretation\<close> are
  primed here, the plain names being reserved words.
\<close>

record TestResult =
  test_name :: string
  value' :: pynum
  unit :: string
  reference_range :: ReferenceRange
  status :: ResultStatus
  interpretation' :: string
  clinical_significance :: string

subsection \<open>LabTest\<close>

text \<open>
  A Python dict keeps its keys in insertion order, and \<^verbatim>\<open>get_available_tests\<close> reads
  that order, so the two tables are association lists (looked up with \<open>map_of\<close>). The
  result cache is only ever read and written by key: it is a map.
\<close>

record LabTest =
  results :: "string \<rightharpoonup> TestResult"
  test_name :: string
  reference_ranges :: "(string \<times> ReferenceRange) list"
  interpretations :: "(string \<times> (string \<times> string) list) list"

datatype error = ValueError string

text \<open>\<^verbatim>\<open>LabTest.__init__\<close>.\<close>

definition LabTest_init :: LabTest where
  "LabTest_init =
     \<lparr>results = Map.empty, test_name = ''Base Lab Test'',
      reference_ranges = [], interpretations = []\<rparr>"

text \<open>
  \<^verbatim>\<open>self.interpretations.get(test_code, {}).get(status.value, "See reference ranges.")\<close>
\<close>

definition lookup_interpretation ::
  "(string \<times> (string \<times> string) list) list \<Rightarrow> string \<Rightarrow> ResultStatus \<Rightarrow> string" where
  "lookup_interpretation tbl test_code st =
     (case map_of (case map_of tbl test_code of None \<Rightarrow> [] | Some d \<Rightarrow> d) (status_value st) of
        None \<Rightarrow> ''See reference ranges.''
      | Some txt \<Rightarrow> txt)"

text \<open>
  \<^verbatim>\<open>LabTest.interpret_result\<close>. The method mutates \<^verbatim>\<open>self.results\<close> and either
  returns a result or raises: the model returns the catalog after the call together with
  the error or the result.
\<close>

definition interpret_result :: "LabTest \<Rightarrow> string \<Rightarrow> pynum \<Rightarrow> LabTest \<times> (error + TestResult)" where
  "interpret_result self test_code v =
     (case map_of (reference_ranges self) test_code of
        None \<Rightarrow> (self, Inl (ValueError (''Unknown test code: '' @ test_code)))
      | Some ref_range \<Rightarrow>
          (let st = get_status ref_range v;
               txt = lookup_interpretation (interpretations self) test_code st;
               result =
                 \<lparr>TestResult.test_name = test_code,
                  value' = v,
                  unit = ReferenceRange.unit ref_range,
                  reference_range = ref_range,
                  status = st,
                  interpretation' = txt,
                  clinical_significance =
                    ''Normal range: '' @ py_str (min_value ref_range) @ ''-'' @
                    py_str (max_value ref_range) @ '' '' @ ReferenceRange.unit ref_range\<rparr>
           in (self\<lparr>results := (results self)(test_code \<mapsto> result)\<rparr>, Inr result)))"

subsection \<open>The three panels\<close>

text \<open>
  Each subclass only sets the name and the two tables after \<^verbatim>\<open>LabTest.__init__\<close>.
  A string is a list of code points; the micro sign of \<^verbatim>\<open>10^3/uL\<close> is code point
  \<open>0xB5\<close>, and the apostrophe is code point \<open>0x27\<close>.
\<close>

definition micro :: string where
  "micro = [CHR 0xB5]"

definition apostrophe :: string where
  "apostrophe = [CHR 0x27]"

text \<open>
  The constructor call \<^verbatim>\<open>ReferenceRange(lo, hi, critical_low=cl, critical_high=ch, unit=u)\<close>;
  a keyword the source leaves out is \<open>None\<close>.
\<close>

definition rr :: "pynum \<Rightarrow> pynum \<Rightarrow> pynum option \<Rightarrow> pynum option \<Rightarrow> string \<Rightarrow> ReferenceRange" where
  "rr lo hi cl ch u =
     \<lparr>min_value = lo, max_value = hi, critical_low = cl, critical_high = ch, unit = u\<rparr>"

definition CompleteBloodCount :: LabTest where
  "CompleteBloodCount = LabTest_init
     \<lparr>test_name := ''Complete Blood Count (CBC)'',
      reference_ranges :=
        [(''WBC'', rr (PyFloat 4.5) (PyFloat 11.0) (Some (PyFloat 2.0)) (Some (PyFloat 20.0))
            (''10^3/'' @ micro @ ''L'')),
         (''RBC'', rr (PyFloat 4.5) (PyFloat 5.9) (Some (PyFloat 2.0)) (Some (PyFloat 7.0))
            (''10^6/'' @ micro @ ''L'')),
         (''Hemoglobin'', rr (PyFloat 13.5) (PyFloat 17.5) (Some (PyFloat 7.0)) (Some (PyFloat 20.0))
            ''g/dL''),
         (''Hematocrit'', rr (PyInt 41) (PyInt 53) (Some (PyInt 20)) (Some (PyInt 70)) ''%''),
         (''MCV'', rr (PyInt 80) (PyInt 100) None None ''fL''),
         (''Platelets'', rr (PyInt 150) (PyInt 400) (Some (PyInt 50)) (Some (PyInt 800))
            (''10^3/'' @ micro @ ''L''))],
      interpretations :=
        [(''WBC'',
           [(''HIGH'', ''Elevated white blood cells may indicate infection, inflammation, or leukemia.''),
            (''LOW'', ''Low white blood cells may indicate bone marrow disorder, autoimmune disease, or medication side effects.'')]),
         (''RBC'',
           [(''HIGH'', ''Elevated RBC may indicate dehydration, polycythemia, or chronic hypoxia.''),
            (''LOW'', ''Low RBC may indicate anemia, blood loss, or bone marrow failure.'')]),
         (''Hemoglobin'',
           [(''HIGH'', ''Elevated hemoglobin may indicate dehydration or polycythemia.''),
            (''LOW'', ''Low hemoglobin indicates anemia - check MCV to determine type.'')]),
         (''Hematocrit'',
           [(''HIGH'', ''Elevated hematocrit may indicate dehydration or polycythemia.''),
            (''LOW'', ''Low hematocrit indicates anemia or blood loss.'')]),
         (''MCV'',
           [(''HIGH'', ''High MCV (macrocytic anemia) - may indicate B12/folate deficiency or reticulocytosis.''),
            (''LOW'', ''Low MCV (microcytic anemia) - may indicate iron deficiency or thalassemia.'')]),
         (''Platelets'',
           [(''HIGH'', ''Elevated platelets may indicate inflammation, malignancy, or essential thrombocythemia.''),
            (''LOW'', ''Low platelets (thrombocytopenia) increases bleeding risk and requires investigation.'')])]\<rparr>"

definition BasicMetabolicPanel :: LabTest where
  "BasicMetabolicPanel = LabTest_init
     \<lparr>test_name := ''Basic Metabolic Panel (BMP)'',
      reference_ranges :=
        [(''Sodium'', rr (PyInt 136) (PyInt 145) (Some (PyInt 120)) (Some (PyInt 160)) ''mEq/L''),
         (''Potassium'', rr (PyFloat 3.5) (PyFloat 5.0) (Some (PyFloat 2.8)) (Some (PyFloat 6.0)) ''mEq/L''),
         (''Chloride'', rr (PyInt 98) (PyInt 107) None None ''mEq/L''),
         (''CO2'', rr (PyInt 23) (PyInt 29) None None ''mEq/L''),
         (''BUN'', rr (PyInt 7) (PyInt 20) None (Some (PyInt 100)) ''mg/dL''),
         (''Creatinine'', rr (PyFloat 0.7) (PyFloat 1.3) None (Some (PyFloat 4.0)) ''mg/dL''),
         (''Glucose'', rr (PyInt 70) (PyInt 100) (Some (PyInt 40)) (Some (PyInt 400)) ''mg/dL''),
         (''Calcium'', rr (PyFloat 8.5) (PyFloat 10.2) (Some (PyFloat 6.5)) (Some (PyFloat 13.0)) ''mg/dL'')],
      interpretations :=
        [(''Sodium'',
           [(''HIGH'', ''Hypernatremia - may indicate dehydration or diabetes insipidus.''),
            (''LOW'', ''Hyponatremia - may indicate SIADH, heart/kidney/liver disease, or excess water intake.'')]),
         (''Potassium'',
           [(''HIGH'', ''Hyperkalemia - dangerous for heart; may indicate kidney failure or excessive supplementation.''),
            (''LOW'', ''Hypokalemia - may cause muscle weakness; check diuretic use and diarrhea.'')]),
         (''Glucose'',
           [(''HIGH'', ''Hyperglycemia - may indicate diabetes, stress, or prednisone use.''),
            (''LOW'', ''Hypoglycemia - requires immediate evaluation; risk of seizure/coma.'')]),
         (''BUN'',
           [(''HIGH'', ''Elevated BUN may indicate kidney disease, dehydration, or high protein diet.''),
            (''LOW'', ''Low BUN may indicate liver disease, malnutrition, or overhydration.'')]),
         (''Creatinine'',
           [(''HIGH'', ''Elevated creatinine indicates reduced kidney function - calculate GFR.''),
            (''LOW'', ''Low creatinine may indicate low muscle mass or liver disease.'')])]\<rparr>"

definition LipidPanel :: LabTest where
  "LipidPanel = LabTest_init
     \<lparr>test_name := ''Lipid Panel'',
      reference_ranges :=
        [(''Total_Cholesterol'', rr (PyInt 0) (PyInt 200) None None ''mg/dL''),
         (''LDL'', rr (PyInt 0) (PyInt 100) None None ''mg/dL''),
         (''HDL'', rr (PyInt 40) (PyInt 300) None None ''mg/dL''),
         (''Triglycerides'', rr (PyInt 0) (PyInt 150) None None ''mg/dL'')],
      interpretations :=
        [(''Total_Cholesterol'',
           [(''HIGH'', ''High total cholesterol increases cardiovascular disease risk.''),
            (''NORMAL'', ''Optimal cholesterol level for cardiovascular health.'')]),
         (''LDL'',
           [(''HIGH'', ''High LDL ('' @ apostrophe @ ''bad'' @ apostrophe @
               '' cholesterol) increases heart attack and stroke risk.''),
            (''NORMAL'', ''LDL at optimal level reduces cardiovascular disease risk.'')]),
         (''HDL'',
           [(''LOW'', ''Low HDL ('' @ apostrophe @ ''good'' @ apostrophe @
               '' cholesterol) increases cardiovascular disease risk.''),
            (''HIGH'', ''High HDL protects against cardiovascular disease.'')]),
         (''Triglycerides'',
           [(''HIGH'', ''High triglycerides increase cardiovascular disease risk and pancreatitis risk.''),
            (''NORMAL'', ''Normal triglyceride level reduces cardiovascular risk.'')])]\<rparr>"

subsection \<open>LabInterpreter\<close>

record LabInterpreter =
  tests :: "(string \<times> LabTest) list"

text \<open>\<^verbatim>\<open>LabInterpreter.__init__\<close>: three fresh catalogs, in this order.\<close>

definition LabInterpreter_init :: LabInterpreter where
  "LabInterpreter_init =
     \<lparr>tests = [(''CBC'', CompleteBloodCount), (''BMP'', BasicMetabolicPanel), (''LP'', LipidPanel)]\<rparr>"

text \<open>
  \<^verbatim>\<open>LabInterpreter.interpret\<close> (primed, the plain name being a reserved word). The catalog found under \<^verbatim>\<open>test_type\<close> is mutated in
  place by the call it is handed; the model writes the catalog after the call back under
  the same key, which keeps the position of the key.
\<close>

definition interpret' ::
  "LabInterpreter \<Rightarrow> string \<Rightarrow> string \<Rightarrow> pynum \<Rightarrow> LabInterpreter \<times> (error + TestResult)" where
  "interpret' self test_type test_code v =
     (case map_of (tests self) test_type of
        None \<Rightarrow> (self, Inl (ValueError (''Unknown test type: '' @ test_type)))
      | Some t \<Rightarrow>
          (let (t', res) = interpret_result t test_code v
           in (self\<lparr>tests := AList.update test_type t' (tests self)\<rparr>, res)))"

text \<open>\<^verbatim>\<open>LabInterpreter.get_available_tests\<close>: a dict comprehension over \<^verbatim>\<open>self.tests.items()\<close>.\<close>

definition get_available_tests :: "LabInterpreter \<Rightarrow> (string \<times> string list) list" where
  "get_available_tests self = map (\<lambda>(test_type, t). (test_type, map fst (reference_ranges t))) (tests self)"

subsection \<open>Well-ordered ranges\<close>

text \<open>
  The ordering of the bounds that the data model intends and the constructor does not
  check: \<open>min \<le> max\<close>, a critical-low at or below the minimum, a critical-high at or
  above the maximum.
\<close>

definition well_ordered :: "ReferenceRange \<Rightarrow> bool" where
  "well_ordered R =
     (num_val (min_value R) \<le> num_val (max_value R) \<and>
      (case critical_low R of None \<Rightarrow> True | Some c \<Rightarrow> num_val c \<le> num_val (min_value R)) \<and>
      (case critical_high R of None \<Rightarrow> True | Some h \<Rightarrow> num_val (max_value R) \<le> num_val h))"

section \<open>Properties\<close>

subsection \<open>Auxiliary facts\<close>

lemma update_same: "map_of al k = Some v \<Longrightarrow> AList.update k v al = al"
  by (induction al) auto

lemma map_of_None_keys: "k \<notin> set (map fst al) \<Longrightarrow> map_of al k = None"
  by (simp add: map_of_eq_None_iff)

lemma interpret_result_unknown:
  "map_of (reference_ranges t) code = None \<Longrightarrow>
   interpret_result t code v = (t, Inl (ValueError (''Unknown test code: '' @ code)))"
  by (simp add: interpret_result_def)

lemma CBC_keys:
  "map fst (reference_ranges CompleteBloodCount) =
     [''WBC'', ''RBC'', ''Hemoglobin'', ''Hematocrit'', ''MCV'', ''Platelets'']"
  by (simp add: CompleteBloodCount_def LabTest_init_def)

lemma BMP_keys:
  "map fst (reference_ranges BasicMetabolicPanel) =
     [''Sodium'', ''Potassium'', ''Chloride'', ''CO2'', ''BUN'', ''Creatinine'', ''Glucose'',
      ''Calcium'']"
  by (simp add: BasicMetabolicPanel_def LabTest_init_def)

lemma LP_keys:
  "map fst (reference_ranges LipidPanel) = [''Total_Cholesterol'', ''LDL'', ''HDL'', ''Triglycerides'']"
  by (simp add: LipidPanel_def LabTest_init_def)

lemma interpret_result_tables:
  "reference_ranges (fst (interpret_result t code v)) = reference_ranges t \<and>
   interpretations (fst (interpret_result t code v)) = interpretations t \<and>
   LabTest.test_name (fst (interpret_result t code v)) = LabTest.test_name t"
  by (simp add: interpret_result_def Let_def split: option.splits)

lemma map_update_same_proj:
  "map_of al k = Some t \<Longrightarrow> f t' = f t \<Longrightarrow>
   map (\<lambda>(k, t). (k, f t)) (AList.update k t' al) = map (\<lambda>(k, t). (k, f t)) al"
  by (induction al) auto

lemma tests_interpret:
  "map_of (tests s) p = Some t \<Longrightarrow>
   tests (fst (interpret' s p c v)) = AList.update p (fst (interpret_result t c v)) (tests s)"
  by (simp add: interpret'_def split: prod.splits)

lemma get_available_tests_interpret:
  "get_available_tests (fst (interpret' s p c v)) = get_available_tests s"
proof (cases "map_of (tests s) p")
  case None
  then show ?thesis by (simp add: interpret'_def)
next
  case (Some t)
  have "reference_ranges (fst (interpret_result t c v)) = reference_ranges t"
    by (simp add: interpret_result_tables)
  then have "map (\<lambda>(k, t). (k, map fst (reference_ranges t)))
        (AList.update p (fst (interpret_result t c v)) (tests s)) =
      map (\<lambda>(k, t). (k, map fst (reference_ranges t))) (tests s)"
    using Some by (intro map_update_same_proj) simp_all
  with Some show ?thesis
    by (simp add: tests_interpret get_available_tests_def)
qed

lemma interpret_result_found:
  "map_of (reference_ranges t) code = Some r \<Longrightarrow>
   interpret_result t code v =
     (t\<lparr>results := (results t)(code \<mapsto>
          \<lparr>TestResult.test_name = code, value' = v, unit = ReferenceRange.unit r,
           reference_range = r, status = get_status r v,
           interpretation' = lookup_interpretation (interpretations t) code (get_status r v),
           clinical_significance =
             ''Normal range: '' @ py_str (min_value r) @ ''-'' @ py_str (max_value r) @ '' '' @
             ReferenceRange.unit r\<rparr>)\<rparr>,
      Inr \<lparr>TestResult.test_name = code, value' = v, unit = ReferenceRange.unit r,
           reference_range = r, status = get_status r v,
           interpretation' = lookup_interpretation (interpretations t) code (get_status r v),
           clinical_significance =
             ''Normal range: '' @ py_str (min_value r) @ ''-'' @ py_str (max_value r) @ '' '' @
             ReferenceRange.unit r\<rparr>)"
  by (simp add: interpret_result_def Let_def)

lemma lookup_interpretation_cases:
  "lookup_interpretation tbl code st =
     (case map_of tbl code of
        None \<Rightarrow> ''See reference ranges.''
      | Some d \<Rightarrow> (case map_of d (status_value st) of
                     None \<Rightarrow> ''See reference ranges.''
                   | Some txt \<Rightarrow> txt))"
  by (simp add: lookup_interpretation_def split: option.splits)

lemma CBC_Hemoglobin:
  "map_of (reference_ranges CompleteBloodCount) ''Hemoglobin'' =
     Some (rr (PyFloat 13.5) (PyFloat 17.5) (Some (PyFloat 7.0)) (Some (PyFloat 20.0)) ''g/dL'')"
  by (simp add: CompleteBloodCount_def LabTest_init_def)

lemma tests_CBC: "map_of (tests LabInterpreter_init) ''CBC'' = Some CompleteBloodCount"
  by (simp add: LabInterpreter_init_def)

lemma interpret_found:
  assumes "map_of (tests s) p = Some t" and "map_of (reference_ranges t) code = Some r"
  shows "\<exists>res. interpret' s p code v =
           (s\<lparr>tests := AList.update p (t\<lparr>results := (results t)(code \<mapsto> res)\<rparr>) (tests s)\<rparr>, Inr res) \<and>
         value' res = v"
  using assms by (simp add: interpret'_def interpret_result_found)

lemma no_text_fallback:
  assumes "list_all (\<lambda>(c, d). map_of d (status_value st) = None) tbl"
  shows "lookup_interpretation tbl code st = ''See reference ranges.''"
proof (cases "map_of tbl code")
  case None
  then show ?thesis by (simp add: lookup_interpretation_cases)
next
  case (Some d)
  then have "(code, d) \<in> set tbl" by (rule map_of_SomeD)
  with assms have "map_of d (status_value st) = None"
    by (auto simp add: list_all_iff)
  with Some show ?thesis by (simp add: lookup_interpretation_cases)
qed

lemma CBC_no_critical:
  "list_all (\<lambda>(c, d). map_of d ''CRITICAL_LOW'' = None \<and> map_of d ''CRITICAL_HIGH'' = None)
     (interpretations CompleteBloodCount)"
  by (simp add: CompleteBloodCount_def LabTest_init_def)

lemma BMP_no_critical:
  "list_all (\<lambda>(c, d). map_of d ''CRITICAL_LOW'' = None \<and> map_of d ''CRITICAL_HIGH'' = None)
     (interpretations BasicMetabolicPanel)"
  by (simp add: BasicMetabolicPanel_def LabTest_init_def)

lemma LP_no_critical:
  "list_all (\<lambda>(c, d). map_of d ''CRITICAL_LOW'' = None \<and> map_of d ''CRITICAL_HIGH'' = None)
     (interpretations LipidPanel)"
  by (simp add: LipidPanel_def LabTest_init_def)

lemma critical_fallback:
  assumes "list_all (\<lambda>(c, d). map_of d ''CRITICAL_LOW'' = None \<and> map_of d ''CRITICAL_HIGH'' = None) tbl"
    and "st = CRITICAL_LOW \<or> st = CRITICAL_HIGH"
  shows "lookup_interpretation tbl code st = ''See reference ranges.''"
proof (rule no_text_fallback)
  from assms show "list_all (\<lambda>(c, d). map_of d (status_value st) = None) tbl"
    by (auto simp add: list_all_iff)
qed

lemma str_13_5: "py_str (min_value (rr (PyFloat 13.5) (PyFloat 17.5) (Some (PyFloat 7.0)) (Some (PyFloat 20.0)) ''g/dL'')) = ''13.5''"
  by code_simp

lemma str_17_5: "py_str (max_value (rr (PyFloat 13.5) (PyFloat 17.5) (Some (PyFloat 7.0)) (Some (PyFloat 20.0)) ''g/dL'')) = ''17.5''"
  by code_simp

lemma CBC_Hematocrit:
  "map_of (reference_ranges CompleteBloodCount) ''Hematocrit'' =
     Some (rr (PyInt 41) (PyInt 53) (Some (PyInt 20)) (Some (PyInt 70)) ''%'')"
  by (simp add: CompleteBloodCount_def LabTest_init_def)

lemma CBC_Hematocrit_texts:
  "map_of (interpretations CompleteBloodCount) ''Hematocrit'' =
     Some [(''HIGH'', ''Elevated hematocrit may indicate dehydration or polycythemia.''),
           (''LOW'', ''Low hematocrit indicates anemia or blood loss.'')]"
  by (simp add: CompleteBloodCount_def LabTest_init_def)

lemma str_41: "py_str (min_value (rr (PyInt 41) (PyInt 53) (Some (PyInt 20)) (Some (PyInt 70)) ''%'')) = ''41''"
  by code_simp

lemma str_53: "py_str (max_value (rr (PyInt 41) (PyInt 53) (Some (PyInt 20)) (Some (PyInt 70)) ''%'')) = ''53''"
  by code_simp

lemma BMP_Potassium:
  "map_of (reference_ranges BasicMetabolicPanel) ''Potassium'' =
     Some (rr (PyFloat 3.5) (PyFloat 5.0) (Some (PyFloat 2.8)) (Some (PyFloat 6.0)) ''mEq/L'')"
  by (simp add: BasicMetabolicPanel_def LabTest_init_def)

lemma status_value_cases:
  "status_value st =
     (case st of NORMAL \<Rightarrow> ''NORMAL'' | LOW \<Rightarrow> ''LOW'' | HIGH \<Rightarrow> ''HIGH''
      | CRITICAL_LOW \<Rightarrow> ''CRITICAL_LOW'' | CRITICAL_HIGH \<Rightarrow> ''CRITICAL_HIGH'')"
  by (cases st) simp_all

lemma py_str_digit:
  assumes "0 \<le> i" and "i < 10"
  shows "py_str (PyInt i) = [''0123456789'' ! nat i]"
proof -
  from assms have "nat i mod 10 = nat i" by simp
  moreover from assms have "int_digits i = [digit_char (nat i)]"
    by (subst int_digits.simps) simp
  ultimately show ?thesis
    using assms by (simp add: int_str_def digit_char_def)
qed

lemma py_str_tens:
  assumes "10 \<le> i"
  shows "py_str (PyInt i) = py_str (PyInt (i div 10)) @ py_str (PyInt (i mod 10))"
proof -
  from assms have "int_digits i = int_digits (i div 10) @ [digit_char (nat (i mod 10))]"
    by (subst int_digits.simps) simp
  moreover have "int_digits (i mod 10) = [digit_char (nat (i mod 10))]"
    by (subst int_digits.simps) simp
  moreover from assms have "\<not> i div 10 < 0" and "\<not> i mod 10 < 0" and "\<not> i < 0"
    by simp_all
  ultimately show ?thesis
    by (simp add: int_str_def)
qed

lemma py_str_neg:
  "i < 0 \<Longrightarrow> py_str (PyInt i) = ''-'' @ py_str (PyInt (- i))"
  by (simp add: int_str_def)

lemma str_f01: "py_str (PyFloat 13.5) = ''13.5''"
  by code_simp

lemma str_f02: "py_str (PyFloat 4.0) = ''4.0''"
  by code_simp

lemma str_f03: "py_str (PyFloat 123456.789) = ''123456.789''"
  by code_simp

lemma str_f04: "py_str (PyFloat (10 ^ 15)) = ''1000000000000000.0''"
  by code_simp

lemma str_f05: "py_str (PyFloat 0.7) = ''0.7''"
  by code_simp

lemma str_f06: "py_str (PyFloat 0.05) = ''0.05''"
  by code_simp

lemma str_f07: "py_str (PyFloat 0.0001) = ''0.0001''"
  by code_simp

lemma str_f08: "py_str (PyFloat 0.012345678901234568) = ''0.012345678901234568''"
  by code_simp

lemma str_f09: "py_str (PyFloat 0.00001) = ''1e-05''"
  by code_simp

lemma str_f10: "py_str (PyFloat (1.5 / 10 ^ 7)) = ''1.5e-07''"
  by code_simp

lemma str_f11: "py_str (PyFloat (10 ^ 16)) = ''1e+16''"
  by code_simp

lemma str_f12: "py_str (PyFloat (1.2345 * 10 ^ 22)) = ''1.2345e+22''"
  by code_simp

lemma str_f13: "py_str (PyFloat (- 2.5)) = ''-2.5''"
  by code_simp

lemma str_f14: "py_str (PyFloat (- 0.00001)) = ''-1e-05''"
  by code_simp

lemma str_f15: "py_str (PyFloat 0) = ''0.0''"
  by code_simp

lemma str_f16: "py_str PyNegZero = ''-0.0''"
  by code_simp

lemma LP_Total_Cholesterol:
  "map_of (reference_ranges LipidPanel) ''Total_Cholesterol'' =
     Some (rr (PyInt 0) (PyInt 200) None None ''mg/dL'')"
  by (simp add: LipidPanel_def LabTest_init_def)

lemma LP_Total_Cholesterol_texts:
  "map_of (interpretations LipidPanel) ''Total_Cholesterol'' =
     Some [(''HIGH'', ''High total cholesterol increases cardiovascular disease risk.''),
           (''NORMAL'', ''Optimal cholesterol level for cardiovascular health.'')]"
  by (simp add: LipidPanel_def LabTest_init_def)

lemma str_0_200:
  "py_str (min_value (rr (PyInt 0) (PyInt 200) None None ''mg/dL'')) = ''0''"
  "py_str (max_value (rr (PyInt 0) (PyInt 200) None None ''mg/dL'')) = ''200''"
  by code_simp+

lemma CBC_Hemoglobin_texts:
  "map_of (interpretations CompleteBloodCount) ''Hemoglobin'' =
     Some [(''HIGH'', ''Elevated hemoglobin may indicate dehydration or polycythemia.''),
           (''LOW'', ''Low hemoglobin indicates anemia - check MCV to determine type.'')]"
  by (simp add: CompleteBloodCount_def LabTest_init_def)

subsection \<open>Classification\<close>

text \<open>
  Claim C1. For every range and every value, \<open>get_status\<close> is the ordered rule in which
  the first test that holds decides: below a defined critical-low it is \<open>CRITICAL_LOW\<close>;
  otherwise above a defined critical-high it is \<open>CRITICAL_HIGH\<close>; otherwise below the
  minimum it is \<open>LOW\<close>; otherwise above the maximum it is \<open>HIGH\<close>; otherwise it is
  \<open>NORMAL\<close>. The operation takes the range and the value and returns the status only:
  it reads and writes no state.
\<close>

theorem get_status_first_match:
  "get_status R v =
     (if (\<exists>c. critical_low R = Some c \<and> num_val v < num_val c) then CRITICAL_LOW
      else if (\<exists>h. critical_high R = Some h \<and> num_val v > num_val h) then CRITICAL_HIGH
      else if num_val v < num_val (min_value R) then LOW
      else if num_val v > num_val (max_value R) then HIGH
      else NORMAL)"
  by (simp add: get_status_def py_lt_def py_gt_def split: option.splits)

text \<open>The rule at the hemoglobin range, one value for each of the five outcomes.\<close>

theorem get_status_first_match_witness:
  "get_status (rr (PyFloat 13.5) (PyFloat 17.5) (Some (PyFloat 7.0)) (Some (PyFloat 20.0)) ''g/dL'')
     (PyFloat 6.0) = CRITICAL_LOW \<and>
   get_status (rr (PyFloat 13.5) (PyFloat 17.5) (Some (PyFloat 7.0)) (Some (PyFloat 20.0)) ''g/dL'')
     (PyFloat 20.5) = CRITICAL_HIGH \<and>
   get_status (rr (PyFloat 13.5) (PyFloat 17.5) (Some (PyFloat 7.0)) (Some (PyFloat 20.0)) ''g/dL'')
     (PyInt 10) = LOW \<and>
   get_status (rr (PyFloat 13.5) (PyFloat 17.5) (Some (PyFloat 7.0)) (Some (PyFloat 20.0)) ''g/dL'')
     (PyFloat 18.2) = HIGH \<and>
   get_status (rr (PyFloat 13.5) (PyFloat 17.5) (Some (PyFloat 7.0)) (Some (PyFloat 20.0)) ''g/dL'')
     (PyFloat 15.0) = NORMAL \<and>
   get_status (rr (PyInt 80) (PyInt 100) None None ''fL'') (PyFloat 1.5) = LOW"
  by (simp add: get_status_first_match rr_def)

text \<open>
  Claim C2, as stated, fails: a boundary is not classified as the claim says for every
  range. With the critical-low equal to the minimum (an ordering the data model allows) the
  critical-low is \<open>NORMAL\<close>, not \<open>LOW\<close>, and likewise the critical-high equal to the
  maximum is \<open>NORMAL\<close>, not \<open>HIGH\<close>; with the minimum above the maximum the minimum is
  \<open>HIGH\<close>; with the critical-low above the minimum the minimum is \<open>CRITICAL_LOW\<close>.
\<close>

theorem boundaries_not_always_as_claimed:
  "get_status (rr (PyInt 5) (PyInt 10) (Some (PyInt 5)) None ''x'') (PyInt 5) = NORMAL \<and>
   get_status (rr (PyInt 5) (PyInt 10) None (Some (PyInt 10)) ''x'') (PyInt 10) = NORMAL \<and>
   get_status (rr (PyInt 10) (PyInt 5) None None ''x'') (PyInt 10) = HIGH \<and>
   get_status (rr (PyInt 5) (PyInt 10) (Some (PyInt 7)) None ''x'') (PyInt 5) = CRITICAL_LOW"
  by (simp add: get_status_def py_lt_def py_gt_def rr_def)

text \<open>
  Claim C2, amended. Every value below a defined critical-low is \<open>CRITICAL_LOW\<close>, for
  every range. For every well-ordered range, the minimum and the maximum are \<open>NORMAL\<close>;
  a defined critical-low is \<open>LOW\<close> when it is strictly below the minimum and \<open>NORMAL\<close>
  when it equals it; a defined critical-high is \<open>HIGH\<close> when it is strictly above the
  maximum and \<open>NORMAL\<close> when it equals it; and every value above a defined critical-high
  is \<open>CRITICAL_HIGH\<close>.
\<close>

theorem boundaries_well_ordered:
  "(\<forall>c v. critical_low R = Some c \<and> num_val v < num_val c \<longrightarrow> get_status R v = CRITICAL_LOW) \<and>
   (well_ordered R \<longrightarrow>
      get_status R (min_value R) = NORMAL \<and>
      get_status R (max_value R) = NORMAL \<and>
      (\<forall>c. critical_low R = Some c \<longrightarrow>
         get_status R c = (if num_val c < num_val (min_value R) then LOW else NORMAL)) \<and>
      (\<forall>h. critical_high R = Some h \<longrightarrow>
         get_status R h = (if num_val (max_value R) < num_val h then HIGH else NORMAL) \<and>
         (\<forall>v. num_val h < num_val v \<longrightarrow> get_status R v = CRITICAL_HIGH)))"
  by (auto simp add: get_status_def py_lt_def py_gt_def well_ordered_def split: option.splits)

theorem boundaries_well_ordered_witness:
  "well_ordered (rr (PyFloat 13.5) (PyFloat 17.5) (Some (PyInt 7)) (Some (PyInt 20)) ''g/dL'') \<and>
   get_status (rr (PyFloat 13.5) (PyFloat 17.5) (Some (PyInt 7)) (Some (PyInt 20)) ''g/dL'')
     (PyFloat 13.5) = NORMAL \<and>
   get_status (rr (PyFloat 13.5) (PyFloat 17.5) (Some (PyInt 7)) (Some (PyInt 20)) ''g/dL'')
     (PyFloat 17.5) = NORMAL \<and>
   get_status (rr (PyFloat 13.5) (PyFloat 17.5) (Some (PyInt 7)) (Some (PyInt 20)) ''g/dL'')
     (PyInt 7) = LOW \<and>
   get_status (rr (PyFloat 13.5) (PyFloat 17.5) (Some (PyInt 7)) (Some (PyInt 20)) ''g/dL'')
     (PyInt 6) = CRITICAL_LOW \<and>
   get_status (rr (PyFloat 13.5) (PyFloat 17.5) (Some (PyInt 7)) (Some (PyInt 20)) ''g/dL'')
     (PyInt 20) = HIGH \<and>
   get_status (rr (PyFloat 13.5) (PyFloat 17.5) (Some (PyInt 7)) (Some (PyInt 20)) ''g/dL'')
     (PyInt 21) = CRITICAL_HIGH"
proof -
  let ?R = "rr (PyFloat 13.5) (PyFloat 17.5) (Some (PyInt 7)) (Some (PyInt 20)) ''g/dL''"
  have wo: "well_ordered ?R"
    by (simp add: well_ordered_def rr_def)
  have cl: "critical_low ?R = Some (PyInt 7)" and ch: "critical_high ?R = Some (PyInt 20)"
    by (simp_all add: rr_def)
  note th = boundaries_well_ordered [of ?R]
  from th cl have a: "get_status ?R (PyInt 6) = CRITICAL_LOW"
    by simp
  from th wo have b: "get_status ?R (min_value ?R) = NORMAL"
    and c: "get_status ?R (max_value ?R) = NORMAL"
    by blast+
  from th wo cl have d: "get_status ?R (PyInt 7) =
      (if num_val (PyInt 7) < num_val (min_value ?R) then LOW else NORMAL)"
    by blast
  from th wo ch have e: "get_status ?R (PyInt 20) =
      (if num_val (max_value ?R) < num_val (PyInt 20) then HIGH else NORMAL)"
    by blast
  from th wo ch have "\<forall>v. num_val (PyInt 20) < num_val v \<longrightarrow> get_status ?R v = CRITICAL_HIGH"
    by blast
  then have f: "get_status ?R (PyInt 21) = CRITICAL_HIGH"
    by simp
  from wo a b c d e f show ?thesis
    by (simp add: rr_def)
qed

subsection \<open>Errors\<close>

text \<open>
  Claim C3, as stated, fails: the message of the error for an unknown test code does not
  identify the panel. Two catalogs with different names raise the same error for the same
  unknown code, and so do two panel codes of the interpreter.
\<close>

theorem unknown_test_code_message_omits_panel:
  "interpret_result CompleteBloodCount ''XYZ'' (PyFloat 1.5) =
     (CompleteBloodCount, Inl (ValueError ''Unknown test code: XYZ'')) \<and>
   interpret_result BasicMetabolicPanel ''XYZ'' (PyFloat 1.5) =
     (BasicMetabolicPanel, Inl (ValueError ''Unknown test code: XYZ'')) \<and>
   LabTest.test_name CompleteBloodCount \<noteq> LabTest.test_name BasicMetabolicPanel \<and>
   snd (interpret' LabInterpreter_init ''CBC'' ''XYZ'' (PyFloat 1.5)) =
   snd (interpret' LabInterpreter_init ''BMP'' ''XYZ'' (PyFloat 1.5))"
proof -
  have a: "map_of (reference_ranges CompleteBloodCount) ''XYZ'' = None"
    by (rule map_of_None_keys) (simp add: CBC_keys)
  have b: "map_of (reference_ranges BasicMetabolicPanel) ''XYZ'' = None"
    by (rule map_of_None_keys) (simp add: BMP_keys)
  have c: "LabTest.test_name CompleteBloodCount \<noteq> LabTest.test_name BasicMetabolicPanel"
    by (simp add: CompleteBloodCount_def BasicMetabolicPanel_def)
  have d: "snd (interpret' LabInterpreter_init ''CBC'' ''XYZ'' (PyFloat 1.5)) =
      Inl (ValueError ''Unknown test code: XYZ'')"
    by (simp add: interpret'_def LabInterpreter_init_def interpret_result_unknown a)
  have e: "snd (interpret' LabInterpreter_init ''BMP'' ''XYZ'' (PyFloat 1.5)) =
      Inl (ValueError ''Unknown test code: XYZ'')"
    by (simp add: interpret'_def LabInterpreter_init_def interpret_result_unknown b)
  from c d e show ?thesis
    by (simp add: interpret_result_unknown a b)
qed

text \<open>
  Claim C3, amended. For every catalog and every test code that is not a key of its
  reference ranges, interpreting any value raises a \<open>ValueError\<close> whose message is
  \<open>Unknown test code: \<close> followed by the test code (the panel is not named), and the
  catalog, its result cache included, is as it was. Through the interpreter the same
  error comes out and the interpreter is as it was.
\<close>

theorem unknown_test_code:
  "map_of (reference_ranges t) code = None \<longrightarrow>
     interpret_result t code v = (t, Inl (ValueError (''Unknown test code: '' @ code))) \<and>
     (map_of (tests s) p = Some t \<longrightarrow>
        interpret' s p code v = (s, Inl (ValueError (''Unknown test code: '' @ code))))"
  by (simp add: interpret'_def interpret_result_unknown update_same)

theorem unknown_test_code_witness:
  "map_of (reference_ranges CompleteBloodCount) ''XYZ'' = None \<and>
   map_of (tests LabInterpreter_init) ''CBC'' = Some CompleteBloodCount \<and>
   interpret_result CompleteBloodCount ''XYZ'' (PyFloat 1.5) =
     (CompleteBloodCount, Inl (ValueError ''Unknown test code: XYZ'')) \<and>
   interpret' LabInterpreter_init ''CBC'' ''XYZ'' (PyFloat 1.5) =
     (LabInterpreter_init, Inl (ValueError ''Unknown test code: XYZ''))"
proof -
  have a: "map_of (reference_ranges CompleteBloodCount) ''XYZ'' = None"
    by (rule map_of_None_keys) (simp add: CBC_keys)
  have b: "map_of (tests LabInterpreter_init) ''CBC'' = Some CompleteBloodCount"
    by (simp add: LabInterpreter_init_def)
  from a b unknown_test_code [of CompleteBloodCount "''XYZ''" "PyFloat 1.5" LabInterpreter_init "''CBC''"]
  show ?thesis by simp
qed

text \<open>
  Claim C4. For every panel code that is not a key of the interpreter's panels,
  \<open>interpret\<close> raises a \<open>ValueError\<close> whose message is \<open>Unknown test type: \<close> followed by
  the requested panel code. No catalog is called: the outcome is the same for every test
  code and value, and the interpreter, every catalog's result cache included, is as it was.
\<close>

theorem unknown_panel:
  "map_of (tests s) p = None \<longrightarrow>
     interpret' s p code v = (s, Inl (ValueError (''Unknown test type: '' @ p)))"
  by (simp add: interpret'_def)

theorem unknown_panel_witness:
  "map_of (tests LabInterpreter_init) ''XYZ'' = None \<and>
   interpret' LabInterpreter_init ''XYZ'' ''Hemoglobin'' (PyFloat 15.0) =
     (LabInterpreter_init, Inl (ValueError ''Unknown test type: XYZ''))"
proof -
  have a: "map_of (tests LabInterpreter_init) ''XYZ'' = None"
    by (simp add: LabInterpreter_init_def)
  from a unknown_panel [of LabInterpreter_init "''XYZ''" "''Hemoglobin''" "PyFloat 15.0"]
  show ?thesis by simp
qed

subsection \<open>Interpreting a known test code\<close>

text \<open>
  Claim C5. For every catalog, every test code that is a key of its reference ranges and
  every value, \<open>interpret_result\<close> returns a result that carries the test code, the value,
  the unit of the range, the range, the status that \<open>get_status\<close> gives, the text found
  under the test code and the name of the status (\<open>NORMAL\<close>, \<open>LOW\<close>, \<open>HIGH\<close>,
  \<open>CRITICAL_LOW\<close>, \<open>CRITICAL_HIGH\<close>), or \<open>See reference ranges.\<close> when there is none,
  and the summary \<open>Normal range: \<close>min\<open>-\<close>max unit; it stores that result under the test
  code, and the interpreter hands the same result on.

  The bounds are printed as Python prints numbers. An int is its decimal digits, most
  significant first, after a minus sign when it is negative. A float is printed as the
  examples show: digits in place with at least one after the point, or exponent notation
  below \<open>0.0001\<close> and from \<open>10\<^sup>1\<^sup>6\<close> on, up to 17 significant digits, with the sign.

  In particular the interpreter as built, asked for \<open>CBC\<close>, \<open>Hemoglobin\<close> and 15.0,
  returns status \<open>NORMAL\<close>, unit \<open>g/dL\<close> and summary \<open>Normal range: 13.5-17.5 g/dL\<close>.
\<close>

theorem interpret_known_test_code:
  "(map_of (reference_ranges t) code = Some r \<longrightarrow>
      (\<exists>res. interpret_result t code v = (t\<lparr>results := (results t)(code \<mapsto> res)\<rparr>, Inr res) \<and>
         TestResult.test_name res = code \<and>
         value' res = v \<and>
         TestResult.unit res = ReferenceRange.unit r \<and>
         reference_range res = r \<and>
         status res = get_status r v \<and>
         interpretation' res =
           (case map_of (interpretations t) code of
              None \<Rightarrow> ''See reference ranges.''
            | Some d \<Rightarrow>
                (case map_of d
                   (case get_status r v of
                      NORMAL \<Rightarrow> ''NORMAL'' | LOW \<Rightarrow> ''LOW'' | HIGH \<Rightarrow> ''HIGH''
                    | CRITICAL_LOW \<Rightarrow> ''CRITICAL_LOW'' | CRITICAL_HIGH \<Rightarrow> ''CRITICAL_HIGH'') of
                   None \<Rightarrow> ''See reference ranges.''
                 | Some txt \<Rightarrow> txt)) \<and>
         clinical_significance res =
           ''Normal range: '' @ py_str (min_value r) @ ''-'' @ py_str (max_value r) @ '' '' @
           ReferenceRange.unit r \<and>
         (map_of (tests s) p = Some t \<longrightarrow>
            interpret' s p code v =
              (s\<lparr>tests := AList.update p (t\<lparr>results := (results t)(code \<mapsto> res)\<rparr>) (tests s)\<rparr>,
               Inr res)))) \<and>
   ((\<forall>i. 0 \<le> i \<and> i < 10 \<longrightarrow> py_str (PyInt i) = [''0123456789'' ! nat i]) \<and>
    (\<forall>i. 10 \<le> i \<longrightarrow> py_str (PyInt i) = py_str (PyInt (i div 10)) @ py_str (PyInt (i mod 10))) \<and>
    (\<forall>i. i < 0 \<longrightarrow> py_str (PyInt i) = ''-'' @ py_str (PyInt (- i)))) \<and>
   (py_str (PyFloat 13.5) = ''13.5'' \<and>
    py_str (PyFloat 4.0) = ''4.0'' \<and>
    py_str (PyFloat 123456.789) = ''123456.789'' \<and>
    py_str (PyFloat (10 ^ 15)) = ''1000000000000000.0'' \<and>
    py_str (PyFloat 0.7) = ''0.7'' \<and>
    py_str (PyFloat 0.05) = ''0.05'' \<and>
    py_str (PyFloat 0.0001) = ''0.0001'' \<and>
    py_str (PyFloat 0.012345678901234568) = ''0.012345678901234568'' \<and>
    py_str (PyFloat 0.00001) = ''1e-05'' \<and>
    py_str (PyFloat (1.5 / 10 ^ 7)) = ''1.5e-07'' \<and>
    py_str (PyFloat (10 ^ 16)) = ''1e+16'' \<and>
    py_str (PyFloat (1.2345 * 10 ^ 22)) = ''1.2345e+22'' \<and>
    py_str (PyFloat (- 2.5)) = ''-2.5'' \<and>
    py_str (PyFloat (- 0.00001)) = ''-1e-05'' \<and>
    py_str (PyFloat 0) = ''0.0'' \<and>
    py_str PyNegZero = ''-0.0'') \<and>
   (\<exists>s' res. interpret' LabInterpreter_init ''CBC'' ''Hemoglobin'' (PyFloat 15.0) = (s', Inr res) \<and>
      status res = NORMAL \<and> TestResult.unit res = ''g/dL'' \<and>
      clinical_significance res = ''Normal range: 13.5-17.5 g/dL'')"
proof -
  let ?r = "rr (PyFloat 13.5) (PyFloat 17.5) (Some (PyFloat 7.0)) (Some (PyFloat 20.0)) ''g/dL''"
  have general: "map_of (reference_ranges t) code = Some r \<longrightarrow>
      (\<exists>res. interpret_result t code v = (t\<lparr>results := (results t)(code \<mapsto> res)\<rparr>, Inr res) \<and>
         TestResult.test_name res = code \<and>
         value' res = v \<and>
         TestResult.unit res = ReferenceRange.unit r \<and>
         reference_range res = r \<and>
         status res = get_status r v \<and>
         interpretation' res =
           (case map_of (interpretations t) code of
              None \<Rightarrow> ''See reference ranges.''
            | Some d \<Rightarrow>
                (case map_of d
                   (case get_status r v of
                      NORMAL \<Rightarrow> ''NORMAL'' | LOW \<Rightarrow> ''LOW'' | HIGH \<Rightarrow> ''HIGH''
                    | CRITICAL_LOW \<Rightarrow> ''CRITICAL_LOW'' | CRITICAL_HIGH \<Rightarrow> ''CRITICAL_HIGH'') of
                   None \<Rightarrow> ''See reference ranges.''
                 | Some txt \<Rightarrow> txt)) \<and>
         clinical_significance res =
           ''Normal range: '' @ py_str (min_value r) @ ''-'' @ py_str (max_value r) @ '' '' @
           ReferenceRange.unit r \<and>
         (map_of (tests s) p = Some t \<longrightarrow>
            interpret' s p code v =
              (s\<lparr>tests := AList.update p (t\<lparr>results := (results t)(code \<mapsto> res)\<rparr>) (tests s)\<rparr>,
               Inr res)))"
    unfolding status_value_cases [symmetric]
    by (simp add: interpret_result_found interpret'_def lookup_interpretation_cases)
  have ints: "(\<forall>i. 0 \<le> i \<and> i < 10 \<longrightarrow> py_str (PyInt i) = [''0123456789'' ! nat i]) \<and>
      (\<forall>i. 10 \<le> i \<longrightarrow> py_str (PyInt i) = py_str (PyInt (i div 10)) @ py_str (PyInt (i mod 10))) \<and>
      (\<forall>i. i < 0 \<longrightarrow> py_str (PyInt i) = ''-'' @ py_str (PyInt (- i)))"
    using py_str_digit py_str_tens py_str_neg by blast
  have floats: "py_str (PyFloat 13.5) = ''13.5'' \<and>
      py_str (PyFloat 4.0) = ''4.0'' \<and>
      py_str (PyFloat 123456.789) = ''123456.789'' \<and>
      py_str (PyFloat (10 ^ 15)) = ''1000000000000000.0'' \<and>
      py_str (PyFloat 0.7) = ''0.7'' \<and>
      py_str (PyFloat 0.05) = ''0.05'' \<and>
      py_str (PyFloat 0.0001) = ''0.0001'' \<and>
      py_str (PyFloat 0.012345678901234568) = ''0.012345678901234568'' \<and>
      py_str (PyFloat 0.00001) = ''1e-05'' \<and>
      py_str (PyFloat (1.5 / 10 ^ 7)) = ''1.5e-07'' \<and>
      py_str (PyFloat (10 ^ 16)) = ''1e+16'' \<and>
      py_str (PyFloat (1.2345 * 10 ^ 22)) = ''1.2345e+22'' \<and>
      py_str (PyFloat (- 2.5)) = ''-2.5'' \<and>
      py_str (PyFloat (- 0.00001)) = ''-1e-05'' \<and>
      py_str (PyFloat 0) = ''0.0'' \<and>
      py_str PyNegZero = ''-0.0''"
    by (intro conjI str_f01 str_f02 str_f03 str_f04 str_f05 str_f06 str_f07 str_f08 str_f09
      str_f10 str_f11 str_f12 str_f13 str_f14 str_f15 str_f16)
  have st: "get_status ?r (PyFloat 15.0) = NORMAL"
    by (simp add: get_status_def py_lt_def py_gt_def rr_def)
  have un: "ReferenceRange.unit ?r = ''g/dL''"
    by (simp add: rr_def)
  have "interpret' LabInterpreter_init ''CBC'' ''Hemoglobin'' (PyFloat 15.0) =
      (LabInterpreter_init\<lparr>tests := AList.update ''CBC''
          (fst (interpret_result CompleteBloodCount ''Hemoglobin'' (PyFloat 15.0)))
          (tests LabInterpreter_init)\<rparr>,
       snd (interpret_result CompleteBloodCount ''Hemoglobin'' (PyFloat 15.0)))"
    by (simp add: interpret'_def tests_CBC split: prod.splits)
  moreover have "snd (interpret_result CompleteBloodCount ''Hemoglobin'' (PyFloat 15.0)) =
      Inr \<lparr>TestResult.test_name = ''Hemoglobin'', value' = PyFloat 15.0, unit = ''g/dL'',
           reference_range = ?r, status = NORMAL,
           interpretation' = lookup_interpretation (interpretations CompleteBloodCount) ''Hemoglobin'' NORMAL,
           clinical_significance = ''Normal range: 13.5-17.5 g/dL''\<rparr>"
    unfolding interpret_result_found [OF CBC_Hemoglobin] st un str_13_5 str_17_5 by simp
  ultimately have concrete:
    "\<exists>s' res. interpret' LabInterpreter_init ''CBC'' ''Hemoglobin'' (PyFloat 15.0) = (s', Inr res) \<and>
      status res = NORMAL \<and> TestResult.unit res = ''g/dL'' \<and>
      clinical_significance res = ''Normal range: 13.5-17.5 g/dL''"
    by simp
  show ?thesis
    by (rule conjI [OF general conjI [OF ints conjI [OF floats concrete]]])
qed

text \<open>
  The same at concrete inputs: a low hematocrit (int bounds print without a point), a
  normal and a high total cholesterol, a critically low hemoglobin (no text, so the
  fallback), a catalog with texts for the two critical statuses and a lower bound that
  prints in exponent notation, and ints printed digit by digit.
\<close>

theorem interpret_known_test_code_witness:
  "map_of (reference_ranges CompleteBloodCount) ''Hematocrit'' =
     Some (rr (PyInt 41) (PyInt 53) (Some (PyInt 20)) (Some (PyInt 70)) ''%'') \<and>
   map_of (tests LabInterpreter_init) ''CBC'' = Some CompleteBloodCount \<and>
   snd (interpret_result CompleteBloodCount ''Hematocrit'' (PyInt 30)) =
     Inr \<lparr>TestResult.test_name = ''Hematocrit'', value' = PyInt 30, unit = ''%'',
          reference_range = rr (PyInt 41) (PyInt 53) (Some (PyInt 20)) (Some (PyInt 70)) ''%'',
          status = LOW,
          interpretation' = ''Low hematocrit indicates anemia or blood loss.'',
          clinical_significance = ''Normal range: 41-53 %''\<rparr> \<and>
   snd (interpret' LabInterpreter_init ''CBC'' ''Hematocrit'' (PyInt 30)) =
     Inr \<lparr>TestResult.test_name = ''Hematocrit'', value' = PyInt 30, unit = ''%'',
          reference_range = rr (PyInt 41) (PyInt 53) (Some (PyInt 20)) (Some (PyInt 70)) ''%'',
          status = LOW,
          interpretation' = ''Low hematocrit indicates anemia or blood loss.'',
          clinical_significance = ''Normal range: 41-53 %''\<rparr> \<and>
   map_of (reference_ranges LipidPanel) ''Total_Cholesterol'' =
     Some (rr (PyInt 0) (PyInt 200) None None ''mg/dL'') \<and>
   (\<exists>res. snd (interpret_result LipidPanel ''Total_Cholesterol'' (PyInt 150)) = Inr res \<and>
      status res = NORMAL \<and>
      interpretation' res = ''Optimal cholesterol level for cardiovascular health.'' \<and>
      clinical_significance res = ''Normal range: 0-200 mg/dL'') \<and>
   (\<exists>res. snd (interpret_result LipidPanel ''Total_Cholesterol'' (PyFloat 250.5)) = Inr res \<and>
      status res = HIGH \<and>
      interpretation' res = ''High total cholesterol increases cardiovascular disease risk.'' \<and>
      clinical_significance res = ''Normal range: 0-200 mg/dL'') \<and>
   map_of (reference_ranges CompleteBloodCount) ''Hemoglobin'' =
     Some (rr (PyFloat 13.5) (PyFloat 17.5) (Some (PyFloat 7.0)) (Some (PyFloat 20.0)) ''g/dL'') \<and>
   (\<exists>res. snd (interpret_result CompleteBloodCount ''Hemoglobin'' (PyFloat 6.0)) = Inr res \<and>
      status res = CRITICAL_LOW \<and>
      interpretation' res = ''See reference ranges.'' \<and>
      clinical_significance res = ''Normal range: 13.5-17.5 g/dL'') \<and>
   (\<exists>res. snd (interpret_result
        (LabTest_init
        \<lparr>reference_ranges :=
           [(''T'', rr (PyFloat 0.00001) (PyFloat 1.0) (Some (PyInt (- 5))) (Some (PyFloat (10 ^ 16))) ''u'')],
         interpretations :=
           [(''T'', [(''CRITICAL_LOW'', ''critically low''), (''CRITICAL_HIGH'', ''critically high'')])]\<rparr>)
        ''T'' (PyInt (- 6))) = Inr res \<and>
      status res = CRITICAL_LOW \<and>
      interpretation' res = ''critically low'' \<and>
      clinical_significance res = ''Normal range: 1e-05-1.0 u'') \<and>
   (\<exists>res. snd (interpret_result
        (LabTest_init
        \<lparr>reference_ranges :=
           [(''T'', rr (PyFloat 0.00001) (PyFloat 1.0) (Some (PyInt (- 5))) (Some (PyFloat (10 ^ 16))) ''u'')],
         interpretations :=
           [(''T'', [(''CRITICAL_LOW'', ''critically low''), (''CRITICAL_HIGH'', ''critically high'')])]\<rparr>)
        ''T'' (PyFloat (10 ^ 17))) = Inr res \<and>
      status res = CRITICAL_HIGH \<and>
      interpretation' res = ''critically high'' \<and>
      clinical_significance res = ''Normal range: 1e-05-1.0 u'') \<and>
   py_str (PyInt 7) = ''7'' \<and> py_str (PyInt 41) = ''41'' \<and> py_str (PyInt (- 120)) = ''-120''"
proof -
  let ?r = "rr (PyInt 41) (PyInt 53) (Some (PyInt 20)) (Some (PyInt 70)) ''%''"
  let ?c = "rr (PyInt 0) (PyInt 200) None None ''mg/dL''"
  let ?h = "rr (PyFloat 13.5) (PyFloat 17.5) (Some (PyFloat 7.0)) (Some (PyFloat 20.0)) ''g/dL''"
  have st: "get_status ?r (PyInt 30) = LOW"
    by (simp add: get_status_def py_lt_def py_gt_def rr_def)
  have un: "ReferenceRange.unit ?r = ''%''"
    by (simp add: rr_def)
  note g = interpret_known_test_code
    [of CompleteBloodCount "''Hematocrit''" ?r "PyInt 30" LabInterpreter_init "''CBC''",
     THEN conjunct1, THEN mp, OF CBC_Hematocrit,
     unfolded st un str_41 str_53 CBC_Hematocrit_texts]
  from g tests_CBC have w1:
    "snd (interpret_result CompleteBloodCount ''Hematocrit'' (PyInt 30)) =
     Inr \<lparr>TestResult.test_name = ''Hematocrit'', value' = PyInt 30, unit = ''%'',
          reference_range = ?r, status = LOW,
          interpretation' = ''Low hematocrit indicates anemia or blood loss.'',
          clinical_significance = ''Normal range: 41-53 %''\<rparr> \<and>
     snd (interpret' LabInterpreter_init ''CBC'' ''Hematocrit'' (PyInt 30)) =
     Inr \<lparr>TestResult.test_name = ''Hematocrit'', value' = PyInt 30, unit = ''%'',
          reference_range = ?r, status = LOW,
          interpretation' = ''Low hematocrit indicates anemia or blood loss.'',
          clinical_significance = ''Normal range: 41-53 %''\<rparr>"
    apply (elim exE conjE)
    subgoal for res by (cases res) simp
    done
  have sc: "get_status ?c (PyInt 150) = NORMAL"
    by (simp add: get_status_def py_lt_def py_gt_def rr_def)
  have uc: "ReferenceRange.unit ?c = ''mg/dL''"
    by (simp add: rr_def)
  note g2 = interpret_known_test_code
    [of LipidPanel "''Total_Cholesterol''" ?c "PyInt 150" LabInterpreter_init "''LP''",
     THEN conjunct1, THEN mp, OF LP_Total_Cholesterol,
     unfolded sc uc str_0_200 LP_Total_Cholesterol_texts]
  from g2 have w2:
    "\<exists>res. snd (interpret_result LipidPanel ''Total_Cholesterol'' (PyInt 150)) = Inr res \<and>
      status res = NORMAL \<and>
      interpretation' res = ''Optimal cholesterol level for cardiovascular health.'' \<and>
      clinical_significance res = ''Normal range: 0-200 mg/dL''"
    apply (elim exE conjE)
    subgoal for res by (rule exI [of _ res]) simp
    done
  have sc3: "get_status ?c (PyFloat 250.5) = HIGH"
    by (simp add: get_status_def py_lt_def py_gt_def rr_def)
  note g3 = interpret_known_test_code
    [of LipidPanel "''Total_Cholesterol''" ?c "PyFloat 250.5" LabInterpreter_init "''LP''",
     THEN conjunct1, THEN mp, OF LP_Total_Cholesterol,
     unfolded sc3 uc str_0_200 LP_Total_Cholesterol_texts]
  from g3 have w3:
    "\<exists>res. snd (interpret_result LipidPanel ''Total_Cholesterol'' (PyFloat 250.5)) = Inr res \<and>
      status res = HIGH \<and>
      interpretation' res = ''High total cholesterol increases cardiovascular disease risk.'' \<and>
      clinical_significance res = ''Normal range: 0-200 mg/dL''"
    apply (elim exE conjE)
    subgoal for res by (rule exI [of _ res]) simp
    done
  have sh: "get_status ?h (PyFloat 6.0) = CRITICAL_LOW"
    by (simp add: get_status_def py_lt_def py_gt_def rr_def)
  have uh: "ReferenceRange.unit ?h = ''g/dL''"
    by (simp add: rr_def)
  note g4 = interpret_known_test_code
    [of CompleteBloodCount "''Hemoglobin''" ?h "PyFloat 6.0" LabInterpreter_init "''CBC''",
     THEN conjunct1, THEN mp, OF CBC_Hemoglobin,
     unfolded sh uh str_13_5 str_17_5 CBC_Hemoglobin_texts]
  from g4 have w4:
    "\<exists>res. snd (interpret_result CompleteBloodCount ''Hemoglobin'' (PyFloat 6.0)) = Inr res \<and>
      status res = CRITICAL_LOW \<and>
      interpretation' res = ''See reference ranges.'' \<and>
      clinical_significance res = ''Normal range: 13.5-17.5 g/dL''"
    apply (elim exE conjE)
    subgoal for res by (rule exI [of _ res]) simp
    done
  let ?x = "rr (PyFloat 0.00001) (PyFloat 1.0) (Some (PyInt (- 5))) (Some (PyFloat (10 ^ 16))) ''u''"
  let ?t = "LabTest_init
        \<lparr>reference_ranges := [(''T'', ?x)],
         interpretations :=
           [(''T'', [(''CRITICAL_LOW'', ''critically low''), (''CRITICAL_HIGH'', ''critically high'')])]\<rparr>"
  have lx: "map_of (reference_ranges ?t) ''T'' = Some ?x"
    by simp
  have tx: "map_of (interpretations ?t) ''T'' =
      Some [(''CRITICAL_LOW'', ''critically low''), (''CRITICAL_HIGH'', ''critically high'')]"
    by simp
  have ux: "ReferenceRange.unit ?x = ''u''"
    by (simp add: rr_def)
  have mx: "py_str (min_value ?x) = ''1e-05''" "py_str (max_value ?x) = ''1.0''"
    by code_simp+
  have s5: "get_status ?x (PyInt (- 6)) = CRITICAL_LOW"
    by (simp add: get_status_def py_lt_def py_gt_def rr_def)
  have s6: "get_status ?x (PyFloat (10 ^ 17)) = CRITICAL_HIGH"
    by (simp add: get_status_def py_lt_def py_gt_def rr_def)
  note g5 = interpret_known_test_code
    [of ?t "''T''" ?x "PyInt (- 6)" LabInterpreter_init "''CBC''",
     THEN conjunct1, THEN mp, OF lx, unfolded s5 ux mx tx]
  from g5 have w5:
    "\<exists>res. snd (interpret_result ?t ''T'' (PyInt (- 6))) = Inr res \<and>
      status res = CRITICAL_LOW \<and>
      interpretation' res = ''critically low'' \<and>
      clinical_significance res = ''Normal range: 1e-05-1.0 u''"
    apply (elim exE conjE)
    subgoal for res by (rule exI [of _ res]) simp
    done
  note g6 = interpret_known_test_code
    [of ?t "''T''" ?x "PyFloat (10 ^ 17)" LabInterpreter_init "''CBC''",
     THEN conjunct1, THEN mp, OF lx, unfolded s6 ux mx tx]
  from g6 have w6:
    "\<exists>res. snd (interpret_result ?t ''T'' (PyFloat (10 ^ 17))) = Inr res \<and>
      status res = CRITICAL_HIGH \<and>
      interpretation' res = ''critically high'' \<and>
      clinical_significance res = ''Normal range: 1e-05-1.0 u''"
    apply (elim exE conjE)
    subgoal for res by (rule exI [of _ res]) simp
    done
  note ints = interpret_known_test_code [THEN conjunct2, THEN conjunct1]
  from ints have d: "\<And>i. 0 \<le> i \<Longrightarrow> i < 10 \<Longrightarrow> py_str (PyInt i) = [''0123456789'' ! nat i]"
    and t: "\<And>i. 10 \<le> i \<Longrightarrow> py_str (PyInt i) = py_str (PyInt (i div 10)) @ py_str (PyInt (i mod 10))"
    and n: "\<And>i. i < 0 \<Longrightarrow> py_str (PyInt i) = ''-'' @ py_str (PyInt (- i))"
    by simp_all
  have i7: "py_str (PyInt 7) = ''7''"
    using d [of 7] by simp
  have i1: "py_str (PyInt 1) = ''1''" and i2: "py_str (PyInt 2) = ''2''"
    and i4: "py_str (PyInt 4) = ''4''" and i0: "py_str (PyInt 0) = ''0''"
    using d [of 1] d [of 2] d [of 4] d [of 0] by simp_all
  have i41: "py_str (PyInt 41) = ''41''"
    using t [of 41] i4 i1 by simp
  have i12: "py_str (PyInt 12) = ''12''"
    using t [of 12] i1 i2 by simp
  have i120: "py_str (PyInt 120) = ''120''"
    using t [of 120] i12 i0 by simp
  have im: "py_str (PyInt (- 120)) = ''-120''"
    using n [of "- 120"] i120 by simp
  show ?thesis
    by (rule conjI [OF CBC_Hematocrit conjI [OF tests_CBC conjI [OF w1 [THEN conjunct1]
      conjI [OF w1 [THEN conjunct2] conjI [OF LP_Total_Cholesterol conjI [OF w2 conjI [OF w3
      conjI [OF CBC_Hemoglobin conjI [OF w4 conjI [OF w5 conjI [OF w6
      conjI [OF i7 conjI [OF i41 im]]]]]]]]]]]]])
qed

text \<open>
  Claim C6. For every panel of the interpreter and every test code of that panel's ranges,
  two calls of \<open>interpret\<close> for that panel and code, with any two values, both return a
  result; after them the cache of the panel holds under that code the result of the second
  call and is otherwise what it was before the first call, after the first call it holds
  the result of the first call and is otherwise unchanged, and every other panel is what
  it was. (The two values need not differ.)
\<close>

theorem interpret_twice_last_write_wins:
  "map_of (tests s) p = Some t \<and> map_of (reference_ranges t) code = Some r \<longrightarrow>
     (\<exists>s1 r1 t1 s2 r2 t2.
        interpret' s p code v1 = (s1, Inr r1) \<and>
        interpret' s1 p code v2 = (s2, Inr r2) \<and>
        value' r1 = v1 \<and> value' r2 = v2 \<and>
        map_of (tests s1) p = Some t1 \<and> results t1 = (results t)(code \<mapsto> r1) \<and>
        map_of (tests s2) p = Some t2 \<and> results t2 = (results t)(code \<mapsto> r2) \<and>
        (\<forall>p'. p' \<noteq> p \<longrightarrow>
           map_of (tests s1) p' = map_of (tests s) p' \<and>
           map_of (tests s2) p' = map_of (tests s) p'))"
proof
  assume h: "map_of (tests s) p = Some t \<and> map_of (reference_ranges t) code = Some r"
  then have pt: "map_of (tests s) p = Some t" and cr: "map_of (reference_ranges t) code = Some r"
    by simp_all
  from interpret_found [OF pt cr, of v1] obtain r1 where
    c1: "interpret' s p code v1 =
      (s\<lparr>tests := AList.update p (t\<lparr>results := (results t)(code \<mapsto> r1)\<rparr>) (tests s)\<rparr>, Inr r1)"
    and val1: "value' r1 = v1"
    by blast
  define t1 where "t1 = t\<lparr>results := (results t)(code \<mapsto> r1)\<rparr>"
  define s1 where "s1 = s\<lparr>tests := AList.update p t1 (tests s)\<rparr>"
  have m1: "map_of (tests s1) p = Some t1"
    by (simp add: s1_def update_conv')
  have cr1: "map_of (reference_ranges t1) code = Some r"
    by (simp add: t1_def cr)
  from interpret_found [OF m1 cr1, of v2] obtain r2 where
    c2: "interpret' s1 p code v2 =
      (s1\<lparr>tests := AList.update p (t1\<lparr>results := (results t1)(code \<mapsto> r2)\<rparr>) (tests s1)\<rparr>, Inr r2)"
    and val2: "value' r2 = v2"
    by blast
  define t2 where "t2 = t1\<lparr>results := (results t1)(code \<mapsto> r2)\<rparr>"
  define s2 where "s2 = s1\<lparr>tests := AList.update p t2 (tests s1)\<rparr>"
  have m2: "map_of (tests s2) p = Some t2"
    by (simp add: s2_def update_conv')
  have res1: "results t1 = (results t)(code \<mapsto> r1)"
    by (simp add: t1_def)
  have res2: "results t2 = (results t)(code \<mapsto> r2)"
    by (simp add: t2_def t1_def)
  have others: "\<forall>p'. p' \<noteq> p \<longrightarrow>
      map_of (tests s1) p' = map_of (tests s) p' \<and> map_of (tests s2) p' = map_of (tests s) p'"
    by (simp add: s1_def s2_def update_conv')
  from c1 c2 val1 val2 m1 m2 res1 res2 others
  show "\<exists>s1 r1 t1 s2 r2 t2.
        interpret' s p code v1 = (s1, Inr r1) \<and>
        interpret' s1 p code v2 = (s2, Inr r2) \<and>
        value' r1 = v1 \<and> value' r2 = v2 \<and>
        map_of (tests s1) p = Some t1 \<and> results t1 = (results t)(code \<mapsto> r1) \<and>
        map_of (tests s2) p = Some t2 \<and> results t2 = (results t)(code \<mapsto> r2) \<and>
        (\<forall>p'. p' \<noteq> p \<longrightarrow>
           map_of (tests s1) p' = map_of (tests s) p' \<and>
           map_of (tests s2) p' = map_of (tests s) p')"
    unfolding s1_def [symmetric] t1_def [symmetric] s2_def [symmetric] t2_def [symmetric]
    by blast
qed

theorem interpret_twice_last_write_wins_witness:
  "map_of (tests LabInterpreter_init) ''CBC'' = Some CompleteBloodCount \<and>
   map_of (reference_ranges CompleteBloodCount) ''Hemoglobin'' =
     Some (rr (PyFloat 13.5) (PyFloat 17.5) (Some (PyFloat 7.0)) (Some (PyFloat 20.0)) ''g/dL'') \<and>
   (\<exists>s1 r1 t1 s2 r2 t2.
      interpret' LabInterpreter_init ''CBC'' ''Hemoglobin'' (PyFloat 15.0) = (s1, Inr r1) \<and>
      interpret' s1 ''CBC'' ''Hemoglobin'' (PyFloat 6.0) = (s2, Inr r2) \<and>
      value' r1 = PyFloat 15.0 \<and> value' r2 = PyFloat 6.0 \<and>
      map_of (tests s1) ''CBC'' = Some t1 \<and>
      results t1 = (results CompleteBloodCount)(''Hemoglobin'' \<mapsto> r1) \<and>
      map_of (tests s2) ''CBC'' = Some t2 \<and>
      results t2 = (results CompleteBloodCount)(''Hemoglobin'' \<mapsto> r2) \<and>
      (\<forall>p'. p' \<noteq> ''CBC'' \<longrightarrow>
         map_of (tests s1) p' = map_of (tests LabInterpreter_init) p' \<and>
         map_of (tests s2) p' = map_of (tests LabInterpreter_init) p'))"
proof -
  have h: "map_of (tests LabInterpreter_init) ''CBC'' = Some CompleteBloodCount \<and>
      map_of (reference_ranges CompleteBloodCount) ''Hemoglobin'' =
        Some (rr (PyFloat 13.5) (PyFloat 17.5) (Some (PyFloat 7.0)) (Some (PyFloat 20.0)) ''g/dL'')"
    using tests_CBC CBC_Hemoglobin by (rule conjI)
  note g = interpret_twice_last_write_wins
    [of LabInterpreter_init "''CBC''" CompleteBloodCount "''Hemoglobin''" _ "PyFloat 15.0" "PyFloat 6.0",
     THEN mp, OF h]
  from tests_CBC CBC_Hemoglobin g show ?thesis
    by (intro conjI)
qed

text \<open>
  Claim C10. None of the three interpretation tables has a text under \<open>CRITICAL_LOW\<close> or
  \<open>CRITICAL_HIGH\<close>. So for each of the three catalogs, whatever its cache holds, for every
  test code of its ranges and every value whose status is critical, the result returned
  carries the interpretation \<open>See reference ranges.\<close>.
\<close>

theorem critical_status_gets_fallback:
  "list_all (\<lambda>(c, d). map_of d ''CRITICAL_LOW'' = None \<and> map_of d ''CRITICAL_HIGH'' = None)
     (interpretations CompleteBloodCount) \<and>
   list_all (\<lambda>(c, d). map_of d ''CRITICAL_LOW'' = None \<and> map_of d ''CRITICAL_HIGH'' = None)
     (interpretations BasicMetabolicPanel) \<and>
   list_all (\<lambda>(c, d). map_of d ''CRITICAL_LOW'' = None \<and> map_of d ''CRITICAL_HIGH'' = None)
     (interpretations LipidPanel) \<and>
   ((t = CompleteBloodCount \<or> t = BasicMetabolicPanel \<or> t = LipidPanel) \<and>
    map_of (reference_ranges t) code = Some r \<and>
    (get_status r v = CRITICAL_LOW \<or> get_status r v = CRITICAL_HIGH) \<longrightarrow>
      (\<exists>t' res. interpret_result (t\<lparr>results := cache\<rparr>) code v = (t', Inr res) \<and>
         status res = get_status r v \<and>
         interpretation' res = ''See reference ranges.''))"
proof -
  have main: "\<exists>t' res. interpret_result (t\<lparr>results := cache\<rparr>) code v = (t', Inr res) \<and>
         status res = get_status r v \<and> interpretation' res = ''See reference ranges.''"
    if t: "t = CompleteBloodCount \<or> t = BasicMetabolicPanel \<or> t = LipidPanel"
    and cr: "map_of (reference_ranges t) code = Some r"
    and st: "get_status r v = CRITICAL_LOW \<or> get_status r v = CRITICAL_HIGH"
  proof -
    from t have "list_all (\<lambda>(c, d). map_of d ''CRITICAL_LOW'' = None \<and> map_of d ''CRITICAL_HIGH'' = None)
        (interpretations t)"
      using CBC_no_critical BMP_no_critical LP_no_critical by blast
    then have fb: "lookup_interpretation (interpretations t) code (get_status r v) = ''See reference ranges.''"
      using st by (rule critical_fallback)
    from cr have "map_of (reference_ranges (t\<lparr>results := cache\<rparr>)) code = Some r"
      by simp
    from interpret_result_found [OF this, of v] fb show ?thesis
      by simp
  qed
  from main CBC_no_critical BMP_no_critical LP_no_critical show ?thesis
    by blast
qed

theorem critical_status_gets_fallback_witness:
  "map_of (reference_ranges CompleteBloodCount) ''Hemoglobin'' =
     Some (rr (PyFloat 13.5) (PyFloat 17.5) (Some (PyFloat 7.0)) (Some (PyFloat 20.0)) ''g/dL'') \<and>
   get_status (rr (PyFloat 13.5) (PyFloat 17.5) (Some (PyFloat 7.0)) (Some (PyFloat 20.0)) ''g/dL'')
     (PyFloat 6.0) = CRITICAL_LOW \<and>
   (\<exists>t' res. interpret_result (CompleteBloodCount\<lparr>results := Map.empty\<rparr>) ''Hemoglobin'' (PyFloat 6.0) =
        (t', Inr res) \<and>
      status res = CRITICAL_LOW \<and> interpretation' res = ''See reference ranges.'') \<and>
   map_of (reference_ranges BasicMetabolicPanel) ''Potassium'' =
     Some (rr (PyFloat 3.5) (PyFloat 5.0) (Some (PyFloat 2.8)) (Some (PyFloat 6.0)) ''mEq/L'') \<and>
   get_status (rr (PyFloat 3.5) (PyFloat 5.0) (Some (PyFloat 2.8)) (Some (PyFloat 6.0)) ''mEq/L'')
     (PyFloat 6.5) = CRITICAL_HIGH \<and>
   (\<exists>t' res. interpret_result (BasicMetabolicPanel\<lparr>results := Map.empty\<rparr>) ''Potassium'' (PyFloat 6.5) =
        (t', Inr res) \<and>
      status res = CRITICAL_HIGH \<and> interpretation' res = ''See reference ranges.'')"
proof -
  let ?h = "rr (PyFloat 13.5) (PyFloat 17.5) (Some (PyFloat 7.0)) (Some (PyFloat 20.0)) ''g/dL''"
  let ?k = "rr (PyFloat 3.5) (PyFloat 5.0) (Some (PyFloat 2.8)) (Some (PyFloat 6.0)) ''mEq/L''"
  have sh: "get_status ?h (PyFloat 6.0) = CRITICAL_LOW"
    by (simp add: get_status_def py_lt_def py_gt_def rr_def)
  have sk: "get_status ?k (PyFloat 6.5) = CRITICAL_HIGH"
    by (simp add: get_status_def py_lt_def py_gt_def rr_def)
  have ph: "(CompleteBloodCount = CompleteBloodCount \<or> CompleteBloodCount = BasicMetabolicPanel \<or>
       CompleteBloodCount = LipidPanel) \<and>
      map_of (reference_ranges CompleteBloodCount) ''Hemoglobin'' = Some ?h \<and>
      (get_status ?h (PyFloat 6.0) = CRITICAL_LOW \<or> get_status ?h (PyFloat 6.0) = CRITICAL_HIGH)"
    using CBC_Hemoglobin sh by simp
  have pk: "(BasicMetabolicPanel = CompleteBloodCount \<or> BasicMetabolicPanel = BasicMetabolicPanel \<or>
       BasicMetabolicPanel = LipidPanel) \<and>
      map_of (reference_ranges BasicMetabolicPanel) ''Potassium'' = Some ?k \<and>
      (get_status ?k (PyFloat 6.5) = CRITICAL_LOW \<or> get_status ?k (PyFloat 6.5) = CRITICAL_HIGH)"
    using BMP_Potassium sk by simp
  note a = critical_status_gets_fallback
    [of CompleteBloodCount "''Hemoglobin''" ?h "PyFloat 6.0" Map.empty,
     THEN conjunct2, THEN conjunct2, THEN conjunct2, THEN mp, OF ph, unfolded sh]
  note b = critical_status_gets_fallback
    [of BasicMetabolicPanel "''Potassium''" ?k "PyFloat 6.5" Map.empty,
     THEN conjunct2, THEN conjunct2, THEN conjunct2, THEN mp, OF pk, unfolded sk]
  from CBC_Hemoglobin sh a BMP_Potassium sk b show ?thesis
    by (intro conjI)
qed

subsection \<open>The fixed tables\<close>

text \<open>
  Claim C7. \<open>get_available_tests\<close> gives, for every panel in the order the interpreter was
  built with, the test codes of the panel in the order of its table: \<open>CBC\<close>, \<open>BMP\<close> and
  \<open>LP\<close> with the codes listed. It returns the listing only and reads nothing but the keys
  of the tables, so no call of \<open>interpret\<close> changes what it returns.
\<close>

theorem available_tests:
  "get_available_tests LabInterpreter_init =
     [(''CBC'', [''WBC'', ''RBC'', ''Hemoglobin'', ''Hematocrit'', ''MCV'', ''Platelets'']),
      (''BMP'', [''Sodium'', ''Potassium'', ''Chloride'', ''CO2'', ''BUN'', ''Creatinine'',
                 ''Glucose'', ''Calcium'']),
      (''LP'', [''Total_Cholesterol'', ''LDL'', ''HDL'', ''Triglycerides''])] \<and>
   (\<forall>s p c v. get_available_tests (fst (interpret' s p c v)) = get_available_tests s)"
proof -
  have "get_available_tests LabInterpreter_init =
     [(''CBC'', [''WBC'', ''RBC'', ''Hemoglobin'', ''Hematocrit'', ''MCV'', ''Platelets'']),
      (''BMP'', [''Sodium'', ''Potassium'', ''Chloride'', ''CO2'', ''BUN'', ''Creatinine'',
                 ''Glucose'', ''Calcium'']),
      (''LP'', [''Total_Cholesterol'', ''LDL'', ''HDL'', ''Triglycerides''])]"
    by (simp add: get_available_tests_def LabInterpreter_init_def CBC_keys BMP_keys LP_keys)
  then show ?thesis
    by (simp add: get_available_tests_interpret)
qed

text \<open>
  Claim C8. In each of the three catalogs, every test code that is a key of the
  interpretation table is a key of the reference ranges. The converse is not required and
  does not hold for the metabolic panel (\<open>Chloride\<close>, \<open>CO2\<close> and \<open>Calcium\<close> have a range
  and no interpretation). Interpreting a result changes neither table, so the inclusion
  holds for the catalogs as long as they live.
\<close>

theorem interpretation_keys_have_ranges:
  "set (map fst (interpretations CompleteBloodCount)) \<subseteq>
     set (map fst (reference_ranges CompleteBloodCount)) \<and>
   set (map fst (interpretations BasicMetabolicPanel)) \<subseteq>
     set (map fst (reference_ranges BasicMetabolicPanel)) \<and>
   set (map fst (interpretations LipidPanel)) \<subseteq>
     set (map fst (reference_ranges LipidPanel)) \<and>
   \<not> set (map fst (reference_ranges BasicMetabolicPanel)) \<subseteq>
     set (map fst (interpretations BasicMetabolicPanel)) \<and>
   (\<forall>t code v. interpretations (fst (interpret_result t code v)) = interpretations t \<and>
      reference_ranges (fst (interpret_result t code v)) = reference_ranges t)"
proof -
  have a: "set (map fst (interpretations CompleteBloodCount)) \<subseteq>
      set (map fst (reference_ranges CompleteBloodCount))"
    unfolding CBC_keys by (simp add: CompleteBloodCount_def LabTest_init_def)
  have b: "set (map fst (interpretations BasicMetabolicPanel)) \<subseteq>
      set (map fst (reference_ranges BasicMetabolicPanel))"
    unfolding BMP_keys by (simp add: BasicMetabolicPanel_def LabTest_init_def)
  have c: "set (map fst (interpretations LipidPanel)) \<subseteq>
      set (map fst (reference_ranges LipidPanel))"
    unfolding LP_keys by (simp add: LipidPanel_def LabTest_init_def)
  have d: "\<not> set (map fst (reference_ranges BasicMetabolicPanel)) \<subseteq>
      set (map fst (interpretations BasicMetabolicPanel))"
    unfolding BMP_keys by (simp add: BasicMetabolicPanel_def LabTest_init_def)
  from a b c d show ?thesis
    by (simp add: interpret_result_tables)
qed

text \<open>
  Claim C9. Every range of the three tables is well-ordered: the minimum is at most the
  maximum, a defined critical-low is at most the minimum and a defined critical-high is at
  least the maximum. The ordering is a fact of the data, not of the type: a range with its
  minimum above its maximum is a value of the record as well.
\<close>

theorem shipped_ranges_well_ordered:
  "list_all well_ordered (map snd (reference_ranges CompleteBloodCount)) \<and>
   list_all well_ordered (map snd (reference_ranges BasicMetabolicPanel)) \<and>
   list_all well_ordered (map snd (reference_ranges LipidPanel)) \<and>
   \<not> well_ordered (rr (PyInt 10) (PyInt 5) None None ''x'')"
proof -
  have a: "list_all well_ordered (map snd (reference_ranges CompleteBloodCount))"
    by (simp add: CompleteBloodCount_def LabTest_init_def well_ordered_def rr_def)
  have b: "list_all well_ordered (map snd (reference_ranges BasicMetabolicPanel))"
    by (simp add: BasicMetabolicPanel_def LabTest_init_def well_ordered_def rr_def)
  have c: "list_all well_ordered (map snd (reference_ranges LipidPanel))"
    by (simp add: LipidPanel_def LabTest_init_def well_ordered_def rr_def)
  have d: "\<not> well_ordered (rr (PyInt 10) (PyInt 5) None None ''x'')"
    by (simp add: well_ordered_def rr_def)
  from a b c d show ?thesis by simp
qed

end
